theory Spec2Isabelle
  imports Main "HOL-Library.Monad_Syntax" "HOL-Library.FSet" "HOL-Library.AList"
    "HOL-Library.Char_ord" "HOL-Library.List_Lexorder"
begin

section \<open>Common notions\<close>

text \<open>The Python exceptions that the modelled routines can raise.\<close>

datatype py_error =
  ValueError | KeyError | IndexError | AttributeError | OverflowError | RecursionError

section \<open>Counting helpers: \<open>nPr\<close> and \<open>nCr\<close>\<close>

text \<open>
  The two helpers call \<open>math.perm\<close> and \<open>math.comb\<close> of the standard library and fall
  back to a quotient of factorials when the interpreter is too old to have them (the
  attribute lookup raises \<open>AttributeError\<close>). The library functions are modelled after
  CPython's \<open>mathmodule.c\<close>, with its checks in their order: a negative argument raises
  \<open>ValueError\<close>; \<open>k > n\<close> gives 0; an iteration count that does not fit the C type of the
  loop counter raises \<open>OverflowError\<close> (\<open>k\<close> for \<open>perm\<close> and \<open>min(k, n - k)\<close> for
  \<open>comb\<close> against \<open>LLONG_MAX\<close>, the argument of \<open>factorial\<close> against \<open>LONG_MAX\<close>);
  otherwise \<open>perm\<close> is the falling product \<open>n (n-1) \<dots> (n-k+1)\<close> and \<open>comb\<close>
  multiplies and divides step by step. \<open>LONG_MAX\<close> is that of the 64-bit Unix platforms.
\<close>

definition LLONG_MAX :: int where
  "LLONG_MAX = 9223372036854775807"

definition LONG_MAX :: int where
  "LONG_MAX = 9223372036854775807"

fun falling :: "int \<Rightarrow> nat \<Rightarrow> int" where
  "falling n 0 = 1"
| "falling n (Suc k) = falling n k * (n - int k)"

definition math_perm :: "int \<Rightarrow> int \<Rightarrow> py_error + int" where
  "math_perm n k =
     (if n < 0 \<or> k < 0 then Inl ValueError
      else if n < k then Inr 0
      else if k > LLONG_MAX then Inl OverflowError
      else Inr (falling n (nat k)))"

fun comb_loop :: "int \<Rightarrow> nat \<Rightarrow> int" where
  "comb_loop n 0 = 1"
| "comb_loop n (Suc i) = (comb_loop n i * (n - int i)) div (int i + 1)"

definition math_comb :: "int \<Rightarrow> int \<Rightarrow> py_error + int" where
  "math_comb n k =
     (if n < 0 \<or> k < 0 then Inl ValueError
      else if n < k then Inr 0
      else if min k (n - k) > LLONG_MAX then Inl OverflowError
      else Inr (comb_loop n (nat (min k (n - k)))))"

definition math_factorial :: "int \<Rightarrow> py_error + int" where
  "math_factorial n =
     (if n > LONG_MAX then Inl OverflowError
      else if n < 0 then Inl ValueError
      else Inr (int (fact (nat n))))"

text \<open>
  \<open>has_perm\<close> and \<open>has_comb\<close> say whether the running interpreter provides
  \<open>math.perm\<close> and \<open>math.comb\<close>; when it does not, the \<open>except AttributeError\<close>
  branch runs. That handler catches nothing else: a \<open>ValueError\<close> or \<open>OverflowError\<close> of
  the library call leaves the helper.
\<close>

definition nPr :: "bool \<Rightarrow> int \<Rightarrow> int \<Rightarrow> py_error + int" where
  "nPr has_perm n r =
     (if r > n \<or> n < 0 \<or> r < 0 then Inr 0
      else if has_perm then math_perm n r
      else (case math_factorial n of
              Inl e \<Rightarrow> Inl e
            | Inr a \<Rightarrow> (case math_factorial (n - r) of
                          Inl e \<Rightarrow> Inl e
                        | Inr b \<Rightarrow> Inr (a div b))))"

definition nCr :: "bool \<Rightarrow> int \<Rightarrow> int \<Rightarrow> py_error + int" where
  "nCr has_comb n r =
     (if r > n \<or> n < 0 \<or> r < 0 then Inr 0
      else if has_comb then math_comb n r
      else (case math_factorial n of
              Inl e \<Rightarrow> Inl e
            | Inr a \<Rightarrow> (case math_factorial r of
                          Inl e \<Rightarrow> Inl e
                        | Inr b \<Rightarrow> (case math_factorial (n - r) of
                                      Inl e \<Rightarrow> Inl e
                                    | Inr c \<Rightarrow> Inr (a div (b * c))))))"


subsection \<open>The library functions agree with the factorial formulas\<close>

lemma falling_fact: "k \<le> n \<Longrightarrow> falling (int n) k * int (fact (n - k)) = int (fact n)"
proof (induction k)
  case 0
  then show ?case by simp
next
  case (Suc k)
  then have kn: "k < n" by simp
  then obtain m where m: "n - k = Suc m"
    by (metis zero_less_diff gr0_implies_Suc)
  then have m': "n - Suc k = m" by simp
  have "int n - int k = int (Suc m)" using m kn by linarith
  then show ?case using Suc kn m m' by (simp add: algebra_simps)
qed

lemma comb_step: "i < n \<Longrightarrow> (n choose i) * (n - i) = (n choose Suc i) * Suc i"
  by (metis binomial_absorb_comp binomial_absorption mult.commute)

lemma comb_loop_binomial: "i \<le> n \<Longrightarrow> comb_loop (int n) i = int (n choose i)"
proof (induction i)
  case 0
  then show ?case by simp
next
  case (Suc i)
  then have lt: "i < n" by simp
  have "int (n choose i) * (int n - int i) = int ((n choose i) * (n - i))"
    using lt by (simp add: of_nat_diff)
  also have "\<dots> = int ((n choose Suc i) * Suc i)" using comb_step[OF lt] by simp
  finally have "comb_loop (int n) (Suc i) = int ((n choose Suc i) * Suc i) div (int i + 1)"
    using Suc lt by simp
  also have "\<dots> = (int (n choose Suc i) * (int i + 1)) div (int i + 1)"
    by (simp add: algebra_simps)
  also have "\<dots> = int (n choose Suc i)"
  proof -
    have "int i + 1 \<noteq> 0" by linarith
    then show ?thesis by (rule nonzero_mult_div_cancel_right)
  qed
  finally show ?case .
qed

lemma math_perm_fact:
  assumes "0 \<le> r" "r \<le> n" "r \<le> LLONG_MAX"
  shows "math_perm n r = Inr (int (fact (nat n)) div int (fact (nat (n - r))))"
proof -
  have le: "nat r \<le> nat n" using assms(1,2) by simp
  have "falling (int (nat n)) (nat r) * int (fact (nat n - nat r)) = int (fact (nat n))"
    by (rule falling_fact[OF le])
  moreover have "nat n - nat r = nat (n - r)" using assms(1,2) by simp
  moreover have "int (fact (nat (n - r))) \<noteq> 0" by simp
  ultimately have "falling n (nat r) = int (fact (nat n)) div int (fact (nat (n - r)))"
    using assms(1,2) by (metis nonzero_mult_div_cancel_right int_nat_eq order_trans)
  then show ?thesis using assms by (simp add: math_perm_def)
qed

lemma math_comb_fact:
  assumes "0 \<le> r" "r \<le> n" "min r (n - r) \<le> LLONG_MAX"
  shows "math_comb n r =
         Inr (int (fact (nat n)) div (int (fact (nat r)) * int (fact (nat (n - r)))))"
proof -
  have le: "nat r \<le> nat n" using assms(1,2) by simp
  have n: "int (nat n) = n" using assms(1,2) by simp
  have m: "nat (min r (n - r)) \<le> nat n" using assms(1,2) by simp
  have "comb_loop n (nat (min r (n - r))) = int (nat n choose nat (min r (n - r)))"
    using comb_loop_binomial[OF m] n by simp
  also have "\<dots> = int (nat n choose nat r)"
  proof (cases "r \<le> n - r")
    case True then show ?thesis by (simp add: min_def)
  next
    case False
    then have "min r (n - r) = n - r" by (simp add: min_def)
    moreover have "nat (n - r) = nat n - nat r" using assms(1,2) by simp
    ultimately show ?thesis using binomial_symmetric[OF le] by simp
  qed
  also have "\<dots> = int (fact (nat n) div (fact (nat r) * fact (nat n - nat r)))"
    using binomial_fact'[OF le] by simp
  also have "nat n - nat r = nat (n - r)" using assms(1,2) by simp
  finally have val: "comb_loop n (nat (min r (n - r))) =
      int (fact (nat n)) div (int (fact (nat r)) * int (fact (nat (n - r))))"
    by (simp add: zdiv_int)
  have c1: "\<not> (n < 0 \<or> r < 0)" using assms(1,2) by linarith
  have c2: "\<not> n < r" using assms(2) by linarith
  have c3: "\<not> min r (n - r) > LLONG_MAX" using assms(3) by linarith
  show ?thesis unfolding math_comb_def using c1 c2 c3 val by (simp only: if_False)
qed

text \<open>
  Claim C10, as stated: for all integers \<open>n\<close> and \<open>r\<close> the helpers never raise. It fails
  where the library call overflows its loop counter: \<open>nPr(2**63, 2**63)\<close> and
  \<open>nCr(2**64, 2**63)\<close> pass the guard and raise \<open>OverflowError\<close> from \<open>math.perm\<close> and
  \<open>math.comb\<close>, and on an interpreter without them \<open>nPr(2**63, 0)\<close> and
  \<open>nCr(2**63, 0)\<close> raise it from \<open>math.factorial\<close>.
\<close>

theorem nPr_nCr_overflow_counterexample:
  "nPr True 9223372036854775808 9223372036854775808 = Inl OverflowError
   \<and> nCr True 18446744073709551616 9223372036854775808 = Inl OverflowError
   \<and> nPr False 9223372036854775808 0 = Inl OverflowError
   \<and> nCr False 9223372036854775808 0 = Inl OverflowError"
  by (simp add: nPr_def nCr_def math_perm_def math_comb_def math_factorial_def
      LLONG_MAX_def LONG_MAX_def)

text \<open>
  Claim C10, amended. For all integers \<open>n\<close> and \<open>r\<close>, \<open>nPr\<close> and \<open>nCr\<close> return 0
  whenever \<open>r > n\<close>, \<open>n < 0\<close> or \<open>r < 0\<close>. Otherwise they raise \<open>OverflowError\<close> exactly
  when the library call does (with \<open>math.perm\<close>: \<open>r > LLONG_MAX\<close>; with \<open>math.comb\<close>:
  \<open>min(r, n - r) > LLONG_MAX\<close>; in the factorial fallback: \<open>n > LONG_MAX\<close>), and in every
  other case they return \<open>n! / (n-r)!\<close> for \<open>nPr\<close> and \<open>n! / (r! (n-r)!)\<close> for \<open>nCr\<close>.
  In particular they never raise when \<open>n\<close> is at most \<open>2^63 - 1\<close>.
\<close>

theorem nPr_nCr_result:
  "nPr has_perm n r =
     (if r > n \<or> n < 0 \<or> r < 0 then Inr 0
      else if (if has_perm then r > LLONG_MAX else n > LONG_MAX) then Inl OverflowError
      else Inr (int (fact (nat n)) div int (fact (nat (n - r)))))
   \<and> nCr has_comb n r =
     (if r > n \<or> n < 0 \<or> r < 0 then Inr 0
      else if (if has_comb then min r (n - r) > LLONG_MAX else n > LONG_MAX)
        then Inl OverflowError
      else Inr (int (fact (nat n)) div (int (fact (nat r)) * int (fact (nat (n - r))))))"
proof (cases "r > n \<or> n < 0 \<or> r < 0")
  case True
  then show ?thesis by (simp add: nPr_def nCr_def)
next
  case False
  then have r: "0 \<le> r" "r \<le> n" by auto
  then have n: "0 \<le> n" "0 \<le> n - r" "n - r \<le> n" by auto
  have P: "nPr has_perm n r =
      (if (if has_perm then r > LLONG_MAX else n > LONG_MAX) then Inl OverflowError
       else Inr (int (fact (nat n)) div int (fact (nat (n - r)))))"
  proof (cases has_perm)
    case True
    show ?thesis
    proof (cases "r > LLONG_MAX")
      case True
      then show ?thesis using \<open>has_perm\<close> False r by (simp add: nPr_def math_perm_def)
    next
      case False
      then have "r \<le> LLONG_MAX" by (simp only: not_less)
      from math_perm_fact[OF r this] show ?thesis
        using \<open>has_perm\<close> \<open>\<not> (r > n \<or> n < 0 \<or> r < 0)\<close> False by (simp add: nPr_def)
    qed
  next
    case False
    then show ?thesis
      using \<open>\<not> (r > n \<or> n < 0 \<or> r < 0)\<close> r n by (simp add: nPr_def math_factorial_def)
  qed
  have C: "nCr has_comb n r =
      (if (if has_comb then min r (n - r) > LLONG_MAX else n > LONG_MAX)
         then Inl OverflowError
       else Inr (int (fact (nat n)) div (int (fact (nat r)) * int (fact (nat (n - r))))))"
  proof (cases has_comb)
    case True
    show ?thesis
    proof (cases "min r (n - r) > LLONG_MAX")
      case True
      then show ?thesis using \<open>has_comb\<close> False r by (simp add: nCr_def math_comb_def)
    next
      case False
      then have "min r (n - r) \<le> LLONG_MAX" by (simp only: not_less)
      from math_comb_fact[OF r this] show ?thesis
        using \<open>has_comb\<close> \<open>\<not> (r > n \<or> n < 0 \<or> r < 0)\<close> False by (simp add: nCr_def)
    qed
  next
    case False
    then show ?thesis
      using \<open>\<not> (r > n \<or> n < 0 \<or> r < 0)\<close> r n by (simp add: nCr_def math_factorial_def)
  qed
  show ?thesis using False P C by simp
qed

theorem nPr_nCr_result_witness:
  "nPr True 5 2 = Inr 20 \<and> nCr False 5 2 = Inr 10
   \<and> nPr False 2 5 = Inr 0 \<and> nCr True (- 1) (- 3) = Inr 0
   \<and> nPr False 4 4 = Inr 24 \<and> nCr True 6 3 = Inr 20"
  using nPr_nCr_result [of True 5 2 False] nPr_nCr_result [of False 2 5 True]
        nPr_nCr_result [of False "- 1" "- 3" True]
        nPr_nCr_result [of False 4 4 True]
        nPr_nCr_result [of False 6 3 True]
  by (simp add: fact_numeral LLONG_MAX_def LONG_MAX_def)

section \<open>Logic circuit builder: topological order and evaluation\<close>


















subsection \<open>The dependency dictionaries\<close>



























subsection \<open>Evaluation\<close>




definition py_index :: "nat \<Rightarrow> int \<Rightarrow> nat option" where
  "py_index len i = (if 0 \<le> i \<and> i < int len then Some (nat i)
                     else if - int len \<le> i \<and> i < 0 then Some (nat (int len + i))
                     else None)"










lemma py_index_less: "py_index len i = Some j \<Longrightarrow> j < len"
  by (auto simp: py_index_def split: if_splits)
















subsection \<open>Example circuits\<close>








subsection \<open>Results\<close>




section \<open>Graph traversal visualizer\<close>













subsection \<open>Traversals\<close>










subsection \<open>Sessions\<close>







subsection \<open>The invariant is kept\<close>


















subsection \<open>Traversals of a state that satisfies the invariant\<close>













subsection \<open>Results\<close>







end
